theory Spec2Isabelle
  imports Complex_Main
begin

section \<open>The SIR particle filter step of the 2D localization demo\<close>

text \<open>
  The development embeds \<^verbatim>\<open>localization_2d_pf\<close> of
  \<^verbatim>\<open>python/sandbox/localization_2d.py\<close>. NumPy's float64 numbers are idealised as
  \<^typ>\<open>real\<close>: rounding, NaN and overflow are outside the model, and the one place where
  an infinity decides control flow (\<^verbatim>\<open>1 / np.sum(w ** 2)\<close> with a zero sum) is
  written out. Every exception of the source is a value \<open>Inl e\<close> of a sum type.
  The \<^verbatim>\<open>print\<close> of the resampling branch is not part of the returned value and
  is left out.
\<close>

subsection \<open>Data\<close>

text \<open>A particle is one row \<open>(x, y, \<theta>)\<close> of the \<open>N \<times> 3\<close> particle array.\<close>

type_synonym particle = "real \<times> real \<times> real"
type_synonym landmark = "real \<times> real"
type_synonym covariance = "real list list"

datatype error = ValueError | ZeroDivisionError | IndexError | TypeError

text \<open>
  A float64 result that may be \<open>+inf\<close>: NumPy scalars divide by zero with a warning,
  not with an exception.
\<close>

datatype npfloat = Finite real | PosInf

fun np_less :: "npfloat \<Rightarrow> real \<Rightarrow> bool" where
  "np_less (Finite x) t = (x < t)"
| "np_less PosInf t = False"

definition px :: "particle \<Rightarrow> real" where
  "px p = fst p"

definition py :: "particle \<Rightarrow> real" where
  "py p = fst (snd p)"

definition ptheta :: "particle \<Rightarrow> real" where
  "ptheta p = snd (snd p)"

subsection \<open>The NumPy operations the step uses\<close>

text \<open>
  \<^verbatim>\<open>np.average(a, axis=0, weights=wgt)\<close> for an \<open>N \<times> 3\<close> array and a
  one-dimensional weight vector: the length check raises ValueError, a zero sum of the
  weights raises ZeroDivisionError, otherwise the result is the column-wise
  \<open>\<Sum> a\<^sub>i w\<^sub>i / \<Sum> w\<^sub>i\<close>.
\<close>

definition np_average :: "particle list \<Rightarrow> real list \<Rightarrow> error + particle" where
  "np_average a wgt =
     (if length wgt \<noteq> length a then Inl ValueError
      else let scl = sum_list wgt in
        if scl = 0 then Inl ZeroDivisionError
        else Inr (sum_list (map2 (\<lambda>p w. px p * w) a wgt) / scl,
                  sum_list (map2 (\<lambda>p w. py p * w) a wgt) / scl,
                  sum_list (map2 (\<lambda>p w. ptheta p * w) a wgt) / scl))"

text \<open>
  \<^verbatim>\<open>np.mod\<close> on integers: the sign follows the divisor, as HOL's \<open>mod\<close> on
  \<^typ>\<open>int\<close> does, and a zero divisor gives 0 with a warning (HOL would give the
  dividend).
\<close>

definition np_mod :: "int \<Rightarrow> int \<Rightarrow> int" where
  "np_mod a b = (if b = 0 then 0 else a mod b)"

text \<open>
  Line 81, \<^verbatim>\<open>Neff = 1 / np.sum(new_weights ** 2)\<close>, Arulampalam's equation (51).
\<close>

definition Neff :: "real list \<Rightarrow> npfloat" where
  "Neff new_weights =
     (let s = sum_list (map (\<lambda>w. w ^ 2) new_weights)
      in if s = 0 then PosInf else Finite (1 / s))"

subsection \<open>The filter step\<close>

text \<open>
  \<^verbatim>\<open>localization_2d_pf\<close>, lines 28 to 91. The two names the function takes from
  its imports, \<^verbatim>\<open>get_landmarks\<close> and \<^verbatim>\<open>systematic_resample\<close>, are the first
  two arguments; the others are the source's, in the source's order. The callables are
  functions that may fail; their random draws are part of the function passed in.
\<close>

definition localization_2d_pf ::
  "landmark list \<Rightarrow>
   (particle list \<Rightarrow> real list \<Rightarrow> error + (particle list \<times> real list)) \<Rightarrow>
   particle list \<Rightarrow> real list \<Rightarrow> real list \<Rightarrow> real \<Rightarrow> real \<Rightarrow> real \<Rightarrow>
   covariance \<Rightarrow> int \<Rightarrow> real \<Rightarrow> int \<Rightarrow>
   (particle list \<Rightarrow> real \<Rightarrow> real \<Rightarrow> real \<Rightarrow> covariance \<Rightarrow> error + particle list) \<Rightarrow>
   (particle list \<Rightarrow> landmark list \<Rightarrow> real list \<Rightarrow> error + real list) \<Rightarrow>
   error + (particle list \<times> real list \<times> particle)" where
  "localization_2d_pf get_landmarks resample_fcn particles weights measurement
       linear_vel angular_vel dt process_noise_cov time_step neff_thres skip
       transition_fcn likelihood_fcn =
     (let Q = process_noise_cov in
      case transition_fcn particles linear_vel angular_vel dt Q of
        Inl e \<Rightarrow> Inl e
      | Inr new_particles \<Rightarrow>
          (case np_average new_particles weights of
             Inl e \<Rightarrow> Inl e
           | Inr state \<Rightarrow>
               if np_mod time_step skip = 0 then
                 (let landmarks = get_landmarks in
                  case likelihood_fcn new_particles landmarks measurement of
                    Inl e \<Rightarrow> Inl e
                  | Inr new_weights \<Rightarrow>
                      if np_less (Neff new_weights) neff_thres then
                        (case resample_fcn new_particles new_weights of
                           Inl e \<Rightarrow> Inl e
                         | Inr (resampled, uniform) \<Rightarrow> Inr (resampled, uniform, state))
                      else Inr (new_particles, new_weights, state))
               else Inr (new_particles, weights, state)))"

text \<open>The weight-vector invariant of the data model: non-negative entries summing to one.\<close>

definition valid_weights :: "real list \<Rightarrow> bool" where
  "valid_weights ws = (list_all (\<lambda>w. 0 \<le> w) ws \<and> sum_list ws = 1)"

subsection \<open>The collaborators that are not among the sources\<close>

text \<open>
  Modelled from the spec: \<^verbatim>\<open>transition_fcn_2d\<close> of the module
  \<^verbatim>\<open>unicycle_model_2d\<close> is missing. Section 4.1 gives the update per particle,
  \<open>x' = x + v cos \<theta> \<Delta>t + \<epsilon>\<^sub>x\<close>, \<open>y' = y + v sin \<theta> \<Delta>t + \<epsilon>\<^sub>y\<close>,
  \<open>\<theta>' = wrap (\<theta> + \<omega> \<Delta>t + \<epsilon>\<^sub>\<theta>)\<close>, with the heading wrapped into \<open>(-\<pi>, \<pi>]\<close>, and rejects an
  empty particle set and a covariance with a negative diagonal entry. The noise draws
  are an explicit argument: draw \<open>i\<close> perturbs particle \<open>i\<close>.
\<close>

text \<open>Modelled from the spec: the heading wrap of the missing transition model,
  into \<open>(-\<pi>, \<pi>]\<close>.\<close>

definition wrap :: "real \<Rightarrow> real" where
  "wrap t = t - 2 * pi * of_int \<lceil>(t - pi) / (2 * pi)\<rceil>"

text \<open>Modelled from the spec: the per-particle update of the missing transition model,
  section 4.1.\<close>

fun propagate :: "real \<Rightarrow> real \<Rightarrow> real \<Rightarrow> particle \<Rightarrow> particle \<Rightarrow> particle" where
  "propagate v om dt (x, y, th) (ex, ey, eth) =
     (x + v * cos th * dt + ex, y + v * sin th * dt + ey, wrap (th + om * dt + eth))"

text \<open>Modelled from the spec: the covariance the missing transition model rejects, one
  with a negative diagonal entry.\<close>

definition negative_variance :: "covariance \<Rightarrow> bool" where
  "negative_variance Q = list_ex (\<lambda>i. Q ! i ! i < 0) [0..<length Q]"

text \<open>Modelled from the spec: the missing \<^verbatim>\<open>transition_fcn_2d\<close>, section 4.1, the
  same cardinality out as in.\<close>

definition transition_fcn_2d ::
  "(nat \<Rightarrow> particle) \<Rightarrow> particle list \<Rightarrow> real \<Rightarrow> real \<Rightarrow> real \<Rightarrow> covariance \<Rightarrow>
   error + particle list" where
  "transition_fcn_2d noise particles v om dt Q =
     (if particles = [] \<or> negative_variance Q then Inl ValueError
      else Inr (map (\<lambda>(i, p). propagate v om dt p (noise i)) (enumerate 0 particles)))"

text \<open>The noise draws of a run without process noise.\<close>

definition no_noise :: "nat \<Rightarrow> particle" where
  "no_noise i = (0, 0, 0)"

text \<open>The filter's process noise tuning of the demo script, \<^verbatim>\<open>np.diag([0.15, 0.15, 0.1])\<close>.\<close>

definition Q_pf :: covariance where
  "Q_pf = [[3/20, 0, 0], [0, 3/20, 0], [0, 0, 1/10]]"

text \<open>
  Modelled from the spec: \<^verbatim>\<open>likelihood_fcn_2d\<close> of \<^verbatim>\<open>unicycle_model_2d\<close> is
  missing. Section 4.2: score every particle with an observation density, then normalise
  the scores to sum to one, falling back to uniform weights when all of them are zero.
  The unnormalised density \<open>lik\<close> is an argument.
\<close>

text \<open>Modelled from the spec: the normalisation of the missing likelihood model, with
  its fallback to uniform weights. The division is by a non-zero sum whenever the scores
  are non-negative.\<close>

definition normalize_weights :: "real list \<Rightarrow> real list" where
  "normalize_weights ls =
     (if list_all (\<lambda>l. l = 0) ls then replicate (length ls) (1 / real (length ls))
      else map (\<lambda>l. l / sum_list ls) ls)"

text \<open>Modelled from the spec: the missing \<^verbatim>\<open>likelihood_fcn_2d\<close>, section 4.2.\<close>

definition likelihood_fcn_2d ::
  "(particle \<Rightarrow> landmark list \<Rightarrow> real list \<Rightarrow> real) \<Rightarrow>
   particle list \<Rightarrow> landmark list \<Rightarrow> real list \<Rightarrow> error + real list" where
  "likelihood_fcn_2d lik particles landmarks measurement =
     Inr (normalize_weights (map (\<lambda>p. lik p landmarks measurement) particles))"

text \<open>
  An observation density for the worked examples: heavy-tailed in the residual of the
  squared range to each landmark, positive everywhere, and rational on rational inputs.
\<close>

definition range_lik :: "particle \<Rightarrow> landmark list \<Rightarrow> real list \<Rightarrow> real" where
  "range_lik p landmarks measurement =
     1 / (1 + sum_list (map2 (\<lambda>l r. ((fst l - px p) ^ 2 + (snd l - py p) ^ 2 - r ^ 2) ^ 2)
                          landmarks measurement))"

text \<open>
  Modelled from the spec: \<^verbatim>\<open>systematic_resample\<close> of the module
  \<^verbatim>\<open>particle_filter\<close> is missing. Section 4.3: with one offset \<open>u\<^sub>0\<close> drawn from
  \<open>[0, 1/N)\<close>, the points \<open>u\<^sub>j = u\<^sub>0 + j/N\<close> are assigned, in one walk along the cumulative
  weight sum, to the particle whose bracket contains them; the weights are reset to
  \<open>1/N\<close>. The offset is an explicit argument. A point beyond the last bracket, or an
  index beyond the particle set, is an IndexError.
\<close>

text \<open>Modelled from the spec: the running sum behind the cumulative weight sum of the
  missing resampler.\<close>

fun cumsum_from :: "real \<Rightarrow> real list \<Rightarrow> real list" where
  "cumsum_from c [] = []"
| "cumsum_from c (w # ws) = (c + w) # cumsum_from (c + w) ws"

text \<open>Modelled from the spec: the cumulative weight sum of the missing resampler; entry
  \<open>k\<close> is the upper end of the bracket of particle \<open>k\<close>.\<close>

definition cumsum :: "real list \<Rightarrow> real list" where
  "cumsum ws = cumsum_from 0 ws"

text \<open>Modelled from the spec: the \<open>N\<close> evenly spaced sample points of the missing
  resampler.\<close>

definition positions :: "real \<Rightarrow> nat \<Rightarrow> real list" where
  "positions u0 N = map (\<lambda>j. u0 + real j / real N) [0..<N]"

text \<open>Modelled from the spec: the single walk of the missing resampler; \<open>cs\<close> is what is
  left of the cumulative sum and \<open>i\<close> the index of its head.\<close>

fun walk :: "real list \<Rightarrow> real list \<Rightarrow> nat \<Rightarrow> error + nat list" where
  "walk [] cs i = Inr []"
| "walk (u # us) [] i = Inl IndexError"
| "walk (u # us) (c # cs) i =
     (if u < c then
        (case walk us (c # cs) i of Inl e \<Rightarrow> Inl e | Inr indexes \<Rightarrow> Inr (i # indexes))
      else walk (u # us) cs (Suc i))"

text \<open>Modelled from the spec: the missing \<^verbatim>\<open>systematic_resample\<close>, section 4.3.\<close>

definition systematic_resample ::
  "real \<Rightarrow> particle list \<Rightarrow> real list \<Rightarrow> error + (particle list \<times> real list)" where
  "systematic_resample u0 particles weights =
     (let N = length particles in
      case walk (positions u0 N) (cumsum weights) 0 of
        Inl e \<Rightarrow> Inl e
      | Inr indexes \<Rightarrow>
          if list_all (\<lambda>i. i < N) indexes
          then Inr (map (\<lambda>i. particles ! i) indexes, replicate N (1 / real N))
          else Inl IndexError)"

text \<open>The bracket of particle \<open>k\<close> on the cumulative weight axis; its width is \<open>ws ! k\<close>.\<close>

definition in_bracket :: "real list \<Rightarrow> nat \<Rightarrow> real \<Rightarrow> bool" where
  "in_bracket ws k u = (sum_list (take k ws) \<le> u \<and> u < sum_list (take k ws) + ws ! k)"

section \<open>Auxiliary facts\<close>

subsection \<open>Evaluation of the worked examples\<close>

lemma wrap_zero: "wrap 0 = 0"
proof -
  have "\<lceil>- (1 / 2) :: real\<rceil> = 0" by (rule ceiling_unique) simp_all
  then show ?thesis by (simp add: wrap_def)
qed

lemmas step_eval = localization_2d_pf_def np_mod_def transition_fcn_2d_def
  negative_variance_def no_noise_def wrap_zero np_average_def px_def py_def ptheta_def
  likelihood_fcn_2d_def normalize_weights_def range_lik_def Neff_def systematic_resample_def
  positions_def cumsum_def Let_def power2_eq_square

subsection \<open>Sums of squares\<close>

lemma sum_sq_shift:
  "sum_list (map (\<lambda>w. (w - c) ^ 2) ws) =
   sum_list (map (\<lambda>w. w ^ 2) ws) - 2 * c * sum_list ws + real (length ws) * c ^ 2"
  for c :: real
  by (induction ws) (simp_all add: power2_eq_square algebra_simps)

lemma sum_sq_le_sq_sum:
  "\<forall>w\<in>set ws. 0 \<le> w \<Longrightarrow> sum_list (map (\<lambda>w. w ^ 2) ws) \<le> (sum_list ws) ^ 2"
  for ws :: "real list"
proof (induction ws)
  case Nil
  then show ?case by simp
next
  case (Cons w ws)
  have "0 \<le> w * sum_list ws"
    using Cons.prems by (simp add: sum_list_nonneg)
  moreover have "sum_list (map (\<lambda>w. w ^ 2) ws) \<le> (sum_list ws) ^ 2"
    using Cons by simp
  ultimately show ?case
    by (simp add: power2_eq_square algebra_simps)
qed

lemma sum_sq_zero_iff:
  "sum_list (map (\<lambda>w. (w - c) ^ 2) ws) = 0 \<longleftrightarrow> (\<forall>w\<in>set ws. w = c)"
  for c :: real
proof (induction ws)
  case Nil
  then show ?case by simp
next
  case (Cons a ws)
  have "0 \<le> sum_list (map (\<lambda>w. (w - c) ^ 2) ws)"
    by (rule sum_list_nonneg) auto
  then have "(a - c) ^ 2 + sum_list (map (\<lambda>w. (w - c) ^ 2) ws) = 0 \<longleftrightarrow>
             (a - c) ^ 2 = 0 \<and> sum_list (map (\<lambda>w. (w - c) ^ 2) ws) = 0"
    by (simp add: add_nonneg_eq_0_iff)
  then show ?case using Cons.IH by auto
qed

lemma sum_sq_lower:
  assumes "sum_list ws = 1"
  shows "1 / real (length ws) \<le> sum_list (map (\<lambda>w. w ^ 2) ws)"
proof -
  let ?n = "real (length ws)"
  have n: "0 < ?n" using assms by (cases ws) auto
  have "0 \<le> sum_list (map (\<lambda>w. (w - 1 / ?n) ^ 2) ws)"
    by (rule sum_list_nonneg) auto
  also have "\<dots> = sum_list (map (\<lambda>w. w ^ 2) ws) - 2 * (1 / ?n) + ?n * (1 / ?n) ^ 2"
    by (simp add: sum_sq_shift assms)
  also have "?n * (1 / ?n) ^ 2 = 1 / ?n"
    using n by (simp add: power2_eq_square)
  finally show ?thesis by simp
qed

lemma sum_sq_uniform_iff:
  assumes "sum_list ws = 1"
  shows "sum_list (map (\<lambda>w. w ^ 2) ws) = 1 / real (length ws) \<longleftrightarrow>
         ws = replicate (length ws) (1 / real (length ws))"
proof -
  let ?n = "real (length ws)"
  have n: "0 < ?n" using assms by (cases ws) auto
  have "?n * (1 / ?n) ^ 2 = 1 / ?n"
    using n by (simp add: power2_eq_square)
  then have "sum_list (map (\<lambda>w. (w - 1 / ?n) ^ 2) ws) = sum_list (map (\<lambda>w. w ^ 2) ws) - 1 / ?n"
    by (simp add: sum_sq_shift assms)
  then have "sum_list (map (\<lambda>w. w ^ 2) ws) = 1 / ?n \<longleftrightarrow> (\<forall>w\<in>set ws. w = 1 / ?n)"
    using sum_sq_zero_iff [of "1 / ?n" ws] by auto
  also have "\<dots> \<longleftrightarrow> ws = replicate (length ws) (1 / ?n)"
    by (metis in_set_replicate replicate_length_same)
  finally show ?thesis .
qed

lemma sum_sq_one_hot:
  fixes ws :: "real list"
  assumes "sum_list ws = 1" "i < length ws" "ws ! i = 1" "\<forall>j<length ws. j \<noteq> i \<longrightarrow> ws ! j = 0"
  shows "sum_list (map (\<lambda>w. w ^ 2) ws) = 1"
proof -
  have "\<forall>w\<in>set ws. w ^ 2 = w"
  proof
    fix w assume "w \<in> set ws"
    then obtain j where "j < length ws" "w = ws ! j"
      by (auto simp add: in_set_conv_nth)
    then have "w = 0 \<or> w = 1" using assms by (cases "j = i") auto
    then show "w ^ 2 = w" by auto
  qed
  then have "map (\<lambda>w. w ^ 2) ws = ws"
    by (simp add: map_idI)
  then show ?thesis using assms by simp
qed

subsection \<open>Weight vectors\<close>

lemma np_average_Inr:
  "np_average a wgt = Inr st \<Longrightarrow> length wgt = length a \<and> sum_list wgt \<noteq> 0"
  by (simp add: np_average_def Let_def split: if_splits)

lemma valid_weights_uniform: "0 < N \<Longrightarrow> valid_weights (replicate N (1 / real N))"
  by (simp add: valid_weights_def list_all_iff sum_list_replicate)

lemma sum_list_divide: "sum_list (map (\<lambda>l. l / s) ls) = sum_list ls / s"
  for s :: real
  by (induction ls) (simp_all add: add_divide_distrib)

lemma valid_weights_normalize:
  assumes "ls \<noteq> []" "\<forall>l\<in>set ls. 0 \<le> l"
  shows "valid_weights (normalize_weights ls)"
proof (cases "list_all (\<lambda>l. l = 0) ls")
  case True
  then show ?thesis
    using assms(1) by (simp add: normalize_weights_def valid_weights_uniform)
next
  case False
  then have "sum_list ls \<noteq> 0"
    using assms(2) sum_list_nonneg_eq_0_iff [of ls] by (auto simp add: list_all_iff)
  moreover have "0 \<le> sum_list ls"
    using assms(2) by (simp add: sum_list_nonneg)
  moreover have "normalize_weights ls = map (\<lambda>l. l / sum_list ls) ls"
    using False by (simp add: normalize_weights_def)
  ultimately show ?thesis
    using assms(2)
    by (simp add: valid_weights_def list_all_iff sum_list_divide)
qed

lemma systematic_resample_weights:
  "systematic_resample u0 ps ws = Inr (ps', ws') \<Longrightarrow>
   ws' = replicate (length ps) (1 / real (length ps))"
  by (auto simp add: systematic_resample_def Let_def split: sum.splits if_splits)

lemma range_lik_nonneg: "0 \<le> range_lik p landmarks measurement"
proof -
  have "0 \<le> sum_list (map2 (\<lambda>l r. ((fst l - px p) ^ 2 + (snd l - py p) ^ 2 - r ^ 2) ^ 2)
                 landmarks measurement)"
    by (rule sum_list_nonneg) auto
  then show ?thesis by (simp add: range_lik_def)
qed

subsection \<open>When the step returns\<close>

lemma step_returns_iff:
  "localization_2d_pf landmarks resample particles weights measurement
     linear_vel angular_vel dt Q time_step neff_thres skip
     transition_fcn likelihood_fcn = Inr (ps', ws', st) \<longleftrightarrow>
   (\<exists>new_ps. transition_fcn particles linear_vel angular_vel dt Q = Inr new_ps \<and>
      np_average new_ps weights = Inr st \<and>
      (if np_mod time_step skip = 0
       then \<exists>new_ws. likelihood_fcn new_ps landmarks measurement = Inr new_ws \<and>
              (if np_less (Neff new_ws) neff_thres
               then resample new_ps new_ws = Inr (ps', ws')
               else ps' = new_ps \<and> ws' = new_ws)
       else ps' = new_ps \<and> ws' = weights))"
  by (auto simp add: localization_2d_pf_def Let_def split: sum.splits)

lemma returned_weights_valid:
  assumes valid: "valid_weights weights"
    and weigh: "\<And>ps ws. ps \<noteq> [] \<Longrightarrow> likelihood_fcn ps landmarks measurement = Inr ws \<Longrightarrow>
                 valid_weights ws"
    and reset: "\<And>ps ws ps' ws'. ps \<noteq> [] \<Longrightarrow> resample ps ws = Inr (ps', ws') \<Longrightarrow>
                 valid_weights ws'"
    and run: "localization_2d_pf landmarks resample particles weights measurement
           linear_vel angular_vel dt Q time_step neff_thres skip
           transition_fcn likelihood_fcn = Inr (ps', ws', st)"
  shows "valid_weights ws'"
proof -
  from run [unfolded step_returns_iff] obtain new_ps where
    avg: "np_average new_ps weights = Inr st" and
    branch: "if np_mod time_step skip = 0
       then \<exists>new_ws. likelihood_fcn new_ps landmarks measurement = Inr new_ws \<and>
              (if np_less (Neff new_ws) neff_thres
               then resample new_ps new_ws = Inr (ps', ws')
               else ps' = new_ps \<and> ws' = new_ws)
       else ps' = new_ps \<and> ws' = weights"
    by blast
  from np_average_Inr [OF avg] valid have ne: "new_ps \<noteq> []"
    by (auto simp add: valid_weights_def)
  show ?thesis
  proof (cases "np_mod time_step skip = 0")
    case False
    with branch valid show ?thesis by simp
  next
    case True
    with branch obtain new_ws where
      lik: "likelihood_fcn new_ps landmarks measurement = Inr new_ws" and
      rest: "if np_less (Neff new_ws) neff_thres
             then resample new_ps new_ws = Inr (ps', ws')
             else ps' = new_ps \<and> ws' = new_ws"
      by auto
    show ?thesis
    proof (cases "np_less (Neff new_ws) neff_thres")
      case False
      with rest weigh [OF ne lik] show ?thesis by simp
    next
      case True
      with rest have "resample new_ps new_ws = Inr (ps', ws')" by simp
      from reset [OF ne this] show ?thesis .
    qed
  qed
qed

subsection \<open>The update interval\<close>

lemma np_mod_minus: "np_mod a (- b) = 0 \<longleftrightarrow> np_mod a b = 0"
  by (simp add: np_mod_def mod_eq_0_iff_dvd)

lemma np_mod_zero_one: "np_mod a 0 = 0 \<and> np_mod a 1 = 0"
  by (simp add: np_mod_def)

lemma same_update_steps:
  assumes "np_mod time_step skip = 0 \<longleftrightarrow> np_mod time_step skip' = 0"
  shows "localization_2d_pf landmarks resample particles weights measurement
           linear_vel angular_vel dt Q time_step neff_thres skip
           transition_fcn likelihood_fcn =
         localization_2d_pf landmarks resample particles weights measurement
           linear_vel angular_vel dt Q time_step neff_thres skip'
           transition_fcn likelihood_fcn"
  using assms by (simp add: localization_2d_pf_def split: sum.splits)

subsection \<open>The walk along the cumulative sum\<close>

lemma length_cumsum_from: "length (cumsum_from c ws) = length ws"
  by (induction ws arbitrary: c) simp_all

lemma nth_cumsum_from:
  "k < length ws \<Longrightarrow> cumsum_from c ws ! k = c + sum_list (take (Suc k) ws)"
proof (induction ws arbitrary: c k)
  case Nil
  then show ?case by simp
next
  case (Cons w ws)
  then show ?case by (cases k) simp_all
qed

lemma length_cumsum: "length (cumsum ws) = length ws"
  by (simp add: cumsum_def length_cumsum_from)

lemma nth_cumsum: "k < length ws \<Longrightarrow> cumsum ws ! k = sum_list (take (Suc k) ws)"
  by (simp add: cumsum_def nth_cumsum_from)

lemma prefix_sum_Suc:
  "k < length ws \<Longrightarrow> sum_list (take (Suc k) ws) = sum_list (take k ws) + ws ! k"
  for ws :: "real list"
  by (simp add: take_Suc_conv_app_nth)

lemma prefix_sum_mono:
  fixes ws :: "real list"
  assumes "\<forall>w\<in>set ws. 0 \<le> w" "k \<le> k'"
  shows "sum_list (take k ws) \<le> sum_list (take k' ws)"
proof -
  have "take k' ws = take k ws @ take (k' - k) (drop k ws)"
    using assms(2) by (metis le_add_diff_inverse take_add)
  moreover have "0 \<le> sum_list (take (k' - k) (drop k ws))"
    using assms(1) by (intro sum_list_nonneg) (auto dest: in_set_takeD in_set_dropD)
  ultimately show ?thesis by simp
qed

lemma in_bracket_unique:
  assumes "\<forall>w\<in>set ws. 0 \<le> w" "k < length ws" "k' < length ws"
    "in_bracket ws k u" "in_bracket ws k' u"
  shows "k = k'"
proof (rule ccontr)
  assume "k \<noteq> k'"
  then consider "Suc k \<le> k'" | "Suc k' \<le> k" by linarith
  then show False
  proof cases
    case 1
    from prefix_sum_mono [OF assms(1) 1] assms(2,4,5) show False
      by (simp add: in_bracket_def prefix_sum_Suc)
  next
    case 2
    from prefix_sum_mono [OF assms(1) 2] assms(3,4,5) show False
      by (simp add: in_bracket_def prefix_sum_Suc)
  qed
qed

lemma walk_brackets:
  "cs = drop i (cumsum ws) \<Longrightarrow> i \<le> length ws \<Longrightarrow> sorted us \<Longrightarrow>
   \<forall>u\<in>set us. sum_list (take i ws) \<le> u \<and> u < sum_list ws \<Longrightarrow>
   \<exists>indexes. walk us cs i = Inr indexes \<and>
     list_all2 (\<lambda>u k. k < length ws \<and> in_bracket ws k u) us indexes"
proof (induction us cs i rule: walk.induct)
  case (1 cs i)
  then show ?case by simp
next
  case (2 u us i)
  then have "length ws \<le> i" by (simp add: length_cumsum)
  with 2 show ?case by auto
next
  case (3 u us c cs i)
  from "3.prems"(1) have i: "i < length ws"
    by (metis drop_all length_cumsum list.distinct(1) not_le)
  from "3.prems"(1) have c: "c = sum_list (take (Suc i) ws)"
    by (metis i length_cumsum nth_cumsum nth_via_drop)
  from "3.prems"(1) have cs: "cs = drop (Suc i) (cumsum ws)"
    by (metis drop_Suc list.sel(3) tl_drop)
  show ?case
  proof (cases "u < c")
    case True
    from "3.prems" have "sorted us"
      and "\<forall>u\<in>set us. sum_list (take i ws) \<le> u \<and> u < sum_list ws"
      by simp_all
    from "3.IH"(1) [OF True "3.prems"(1,2) this]
    obtain indexes where w: "walk us (c # cs) i = Inr indexes"
      and b: "list_all2 (\<lambda>u k. k < length ws \<and> in_bracket ws k u) us indexes"
      by blast
    have "in_bracket ws i u"
      using True c i "3.prems"(4) by (simp add: in_bracket_def prefix_sum_Suc)
    with w b i True show ?thesis by simp
  next
    case False
    then have "\<forall>v\<in>set (u # us). sum_list (take (Suc i) ws) \<le> v \<and> v < sum_list ws"
      using "3.prems"(3,4) c by auto
    from "3.IH"(2) [OF False cs _ "3.prems"(3) this] i False
    show ?thesis by simp
  qed
qed

lemma sorted_positions: "sorted (positions u0 N)"
  by (auto simp add: positions_def sorted_iff_nth_mono divide_right_mono)

lemma positions_range:
  assumes "0 \<le> u0" "u0 < 1 / real N" "u \<in> set (positions u0 N)"
  shows "0 \<le> u \<and> u < 1"
proof -
  from assms(3) obtain j where j: "j < N" and u: "u = u0 + real j / real N"
    by (auto simp add: positions_def)
  have N: "0 < real N" using j by simp
  have "real j + 1 \<le> real N" using j by linarith
  then have "real j / real N + 1 / real N \<le> 1"
    using N by (simp add: field_simps)
  with assms(1,2) u N show ?thesis by simp
qed

subsection \<open>How many sample points fall into one bracket\<close>

lemma card_nat_interval:
  fixes a b :: real
  assumes "- 1 < a" "a \<le> b"
  shows "int (card {j::nat. a \<le> real j \<and> real j < b}) = \<lceil>b\<rceil> - \<lceil>a\<rceil>"
proof -
  have lo: "0 \<le> \<lceil>a\<rceil>" using assms(1) by linarith
  have mono: "\<lceil>a\<rceil> \<le> \<lceil>b\<rceil>" using assms(2) by (rule ceiling_mono)
  have "{j::nat. a \<le> real j \<and> real j < b} = {nat \<lceil>a\<rceil> ..< nat \<lceil>b\<rceil>}"
  proof (rule set_eqI)
    fix j :: nat
    have "a \<le> real j \<longleftrightarrow> \<lceil>a\<rceil> \<le> int j"
      by (simp add: ceiling_le_iff)
    moreover have "real j < b \<longleftrightarrow> int j < \<lceil>b\<rceil>"
      by (simp add: less_ceiling_iff)
    ultimately show "j \<in> {j::nat. a \<le> real j \<and> real j < b} \<longleftrightarrow> j \<in> {nat \<lceil>a\<rceil> ..< nat \<lceil>b\<rceil>}"
      using lo by (auto simp add: nat_le_iff zless_nat_eq_int_zless)
  qed
  then have "card {j::nat. a \<le> real j \<and> real j < b} = nat \<lceil>b\<rceil> - nat \<lceil>a\<rceil>"
    by simp
  moreover have "int (nat \<lceil>b\<rceil> - nat \<lceil>a\<rceil>) = \<lceil>b\<rceil> - \<lceil>a\<rceil>"
    using lo mono by linarith
  ultimately show ?thesis by simp
qed

lemma card_nat_interval_bounds:
  fixes a b :: real
  assumes "- 1 < a" "a \<le> b"
  shows "\<bar>real (card {j::nat. a \<le> real j \<and> real j < b}) - (b - a)\<bar> < 1"
proof -
  have "real (card {j::nat. a \<le> real j \<and> real j < b}) = of_int (\<lceil>b\<rceil> - \<lceil>a\<rceil>)"
    using card_nat_interval [OF assms] by (metis of_int_of_nat_eq)
  then show ?thesis by simp linarith
qed

lemma prefix_sum_le_total:
  fixes ws :: "real list"
  assumes "\<forall>w\<in>set ws. 0 \<le> w"
  shows "0 \<le> sum_list (take k ws) \<and> sum_list (take k ws) \<le> sum_list ws"
proof -
  have "0 \<le> sum_list (take k ws)"
    using assms by (intro sum_list_nonneg) (auto dest: in_set_takeD)
  moreover have "0 \<le> sum_list (drop k ws)"
    using assms by (intro sum_list_nonneg) (auto dest: in_set_dropD)
  moreover have "sum_list ws = sum_list (take k ws) + sum_list (drop k ws)"
    by (metis append_take_drop_id sum_list_append)
  ultimately show ?thesis by simp
qed

lemma bracket_count:
  fixes ws :: "real list"
  assumes nonneg: "\<forall>w\<in>set ws. 0 \<le> w" and total: "sum_list ws = 1"
    and k: "k < length ws" and u0: "0 \<le> u0" "u0 < 1 / real (length ws)"
  shows "\<bar>real (card {j. j < length ws \<and> in_bracket ws k (u0 + real j / real (length ws))})
          - real (length ws) * ws ! k\<bar> < 1"
proof -
  let ?N = "real (length ws)"
  let ?S = "sum_list (take k ws)"
  let ?a = "?N * (?S - u0)"
  let ?b = "?N * (?S + ws ! k - u0)"
  have N: "0 < ?N" using k by (cases ws) simp_all
  have wk: "0 \<le> ws ! k" using nonneg k by simp
  have S0: "0 \<le> ?S" using prefix_sum_le_total [OF nonneg] by simp
  have "sum_list (take (Suc k) ws) \<le> 1"
    using prefix_sum_le_total [OF nonneg, of "Suc k"] total by simp
  then have S1: "?S + ws ! k \<le> 1"
    using k by (simp add: take_Suc_conv_app_nth)
  have Nu: "?N * u0 < 1" using u0(2) N by (simp add: field_simps)
  have a: "- 1 < ?a"
  proof -
    have "0 \<le> ?N * ?S" using N S0 by simp
    then show ?thesis using Nu by (simp add: algebra_simps)
  qed
  have ab: "?a \<le> ?b" using N wk by (simp add: algebra_simps)
  have bN: "?b \<le> ?N"
  proof -
    have "?N * (?S + ws ! k) \<le> ?N * 1" using N S1 by (intro mult_left_mono) simp_all
    moreover have "0 \<le> ?N * u0" using N u0(1) by simp
    ultimately show ?thesis by (simp add: algebra_simps)
  qed
  have "{j. j < length ws \<and> in_bracket ws k (u0 + real j / ?N)} =
        {j::nat. ?a \<le> real j \<and> real j < ?b}"
  proof (rule set_eqI)
    fix j :: nat
    have "?S \<le> u0 + real j / ?N \<longleftrightarrow> ?a \<le> real j"
      using N by (simp add: field_simps)
    moreover have "u0 + real j / ?N < ?S + ws ! k \<longleftrightarrow> real j < ?b"
      using N by (simp add: field_simps)
    moreover have "real j < ?b \<Longrightarrow> j < length ws"
      using bN by linarith
    ultimately show "j \<in> {j. j < length ws \<and> in_bracket ws k (u0 + real j / ?N)} \<longleftrightarrow>
        j \<in> {j::nat. ?a \<le> real j \<and> real j < ?b}"
      by (auto simp add: in_bracket_def)
  qed
  moreover have "?b - ?a = ?N * ws ! k"
    by (simp add: algebra_simps)
  ultimately show ?thesis
    using card_nat_interval_bounds [OF a ab] by simp
qed

section \<open>The claims\<close>

subsection \<open>C1: what the state estimate is computed from\<close>

text \<open>
  C1 states that the returned estimate is the weighted mean of the returned particle
  set under the returned weights. On an update step it is not: line 71 computes the
  estimate from the predicted particles and the weights of step \<open>k\<close>, before the
  likelihood replaces the weights. At the input below the step returns the estimate
  \<open>(1/2, 0, 0)\<close>, while the mean of the returned set under the returned weights
  \<open>[2/3, 1/3]\<close> is \<open>(1/3, 0, 0)\<close>.
\<close>

theorem estimate_not_posterior_mean_counterexample:
  "localization_2d_pf [(0, 0)] (systematic_resample 0)
     [(0, 0, 0), (1, 0, 0)] [1/2, 1/2] [0] 0 0 (1/50) Q_pf 100 1 100
     (transition_fcn_2d no_noise) (likelihood_fcn_2d range_lik)
   = Inr ([(0, 0, 0), (1, 0, 0)], [2/3, 1/3], (1/2, 0, 0)) \<and>
   np_average [(0, 0, 0), (1, 0, 0)] [2/3, 1/3] \<noteq> Inr (1/2, 0, 0)"
  by (simp add: step_eval Q_pf_def)

text \<open>
  C1, amended: whenever the step returns, its estimate is the weighted mean of the
  predicted particle set (the output of the transition function, before any resampling)
  under the input weight vector; on a step whose index is not a multiple of \<open>skip\<close>
  these are the returned particle set and the returned weights.
\<close>

theorem estimate_is_prior_weighted_mean:
  assumes "localization_2d_pf landmarks resample particles weights measurement
             linear_vel angular_vel dt Q time_step neff_thres skip
             transition_fcn likelihood_fcn = Inr (ps', ws', st)"
  shows "\<exists>new_ps. transition_fcn particles linear_vel angular_vel dt Q = Inr new_ps \<and>
           np_average new_ps weights = Inr st \<and>
           (np_mod time_step skip \<noteq> 0 \<longrightarrow> ps' = new_ps \<and> ws' = weights)"
  using assms
  by (auto simp add: localization_2d_pf_def Let_def split: sum.splits if_splits)

theorem estimate_is_prior_weighted_mean_witness:
  "localization_2d_pf [(0, 0)] (systematic_resample 0)
     [(0, 0, 0), (1, 0, 0)] [1/2, 1/2] [0] (1/2) 0 (1/50) Q_pf 1 50 100
     (transition_fcn_2d no_noise) (likelihood_fcn_2d range_lik)
   = Inr ([(1/100, 0, 0), (101/100, 0, 0)], [1/2, 1/2], (51/100, 0, 0)) \<and>
   np_mod 1 100 \<noteq> 0 \<and>
   np_average [(1/100, 0, 0), (101/100, 0, 0)] [1/2, 1/2] = Inr (51/100, 0, 0)"
proof -
  have run: "localization_2d_pf [(0, 0)] (systematic_resample 0)
     [(0, 0, 0), (1, 0, 0)] [1/2, 1/2] [0] (1/2) 0 (1/50) Q_pf 1 50 100
     (transition_fcn_2d no_noise) (likelihood_fcn_2d range_lik)
   = Inr ([(1/100, 0, 0), (101/100, 0, 0)], [1/2, 1/2], (51/100, 0, 0))"
    by (simp add: step_eval Q_pf_def)
  have skipped: "np_mod 1 100 \<noteq> 0"
    by (simp add: np_mod_def)
  from estimate_is_prior_weighted_mean [OF run] skipped
  have "np_average [(1/100, 0, 0), (101/100, 0, 0)] [1/2, 1/2] = Inr (51/100, 0, 0)"
    by auto
  with run skipped show ?thesis by simp
qed

subsection \<open>C2: a step between two measurement updates\<close>

text \<open>
  C2 states that with \<open>skip = 100\<close> and a step index that is not a multiple of 100 the
  weights come back unchanged and the particle set comes back different. The second
  half fails where the prediction moves nothing: with zero velocities and zero noise
  draws the step returns the particle set it was given.
\<close>

theorem prediction_leaves_particles_counterexample:
  "np_mod 1 100 \<noteq> 0 \<and>
   localization_2d_pf [(0, 0)] (systematic_resample 0)
     [(0, 0, 0), (1, 1, 0)] [1/2, 1/2] [0] 0 0 (1/50)
     [[0, 0, 0], [0, 0, 0], [0, 0, 0]] 1 50 100
     (transition_fcn_2d no_noise) (likelihood_fcn_2d range_lik)
   = Inr ([(0, 0, 0), (1, 1, 0)], [1/2, 1/2], (1/2, 1/2, 0))"
  by (simp add: step_eval)

text \<open>
  C2, amended: with \<open>skip = 100\<close> and a step index that is not a multiple of 100, the
  step returns exactly when prediction and weighted mean succeed; the returned weight
  vector is the input weight vector and the returned particle set is the output of the
  prediction step (which differs from the input set whenever the transition function
  moves a particle).
\<close>

theorem skipped_update_carries_weights:
  assumes "np_mod time_step 100 \<noteq> 0"
  shows "localization_2d_pf landmarks resample particles weights measurement
           linear_vel angular_vel dt Q time_step neff_thres 100
           transition_fcn likelihood_fcn = Inr (ps', ws', st) \<longleftrightarrow>
         transition_fcn particles linear_vel angular_vel dt Q = Inr ps' \<and>
         ws' = weights \<and> np_average ps' weights = Inr st"
  using assms
  by (auto simp add: localization_2d_pf_def Let_def split: sum.splits)

theorem skipped_update_carries_weights_witness:
  "np_mod 7 100 \<noteq> 0 \<and>
   localization_2d_pf [(0, 0)] (systematic_resample 0)
     [(0, 0, 0), (1, 0, 0)] [1/4, 3/4] [0] (1/2) 0 (1/50) Q_pf 7 50 100
     (transition_fcn_2d no_noise) (likelihood_fcn_2d range_lik)
   = Inr ([(1/100, 0, 0), (101/100, 0, 0)], [1/4, 3/4], (76/100, 0, 0))"
proof -
  have skipped: "np_mod 7 100 \<noteq> 0"
    by (simp add: np_mod_def)
  have "localization_2d_pf [(0, 0)] (systematic_resample 0)
     [(0, 0, 0), (1, 0, 0)] [1/4, 3/4] [0] (1/2) 0 (1/50) Q_pf 7 50 100
     (transition_fcn_2d no_noise) (likelihood_fcn_2d range_lik)
   = Inr ([(1/100, 0, 0), (101/100, 0, 0)], [1/4, 3/4], (76/100, 0, 0))"
    by (rule iffD2 [OF skipped_update_carries_weights [OF skipped]])
      (simp add: transition_fcn_2d_def negative_variance_def Q_pf_def no_noise_def
        wrap_zero np_average_def px_def py_def ptheta_def)
  with skipped show ?thesis by simp
qed

subsection \<open>C3: the effective sample size\<close>

text \<open>
  C3: the effective sample size is \<open>1 / \<Sum> w\<^sub>i\<^sup>2\<close>; for a weight vector of length \<open>N\<close>
  that is non-negative and sums to one it lies in \<open>[1, N]\<close>, it equals \<open>N\<close> exactly when
  the weights are uniform, and it equals 1 when one particle holds all the mass.
\<close>

theorem Neff_range:
  assumes "valid_weights ws"
  shows "\<exists>x. Neff ws = Finite x \<and> x = 1 / sum_list (map (\<lambda>w. w ^ 2) ws) \<and>
           1 \<le> x \<and> x \<le> real (length ws) \<and>
           (x = real (length ws) \<longleftrightarrow> ws = replicate (length ws) (1 / real (length ws))) \<and>
           ((\<exists>i<length ws. ws ! i = 1 \<and> (\<forall>j<length ws. j \<noteq> i \<longrightarrow> ws ! j = 0)) \<longrightarrow> x = 1)"
proof -
  let ?s = "sum_list (map (\<lambda>w. w ^ 2) ws)"
  let ?n = "real (length ws)"
  have nonneg: "\<forall>w\<in>set ws. 0 \<le> w" and total: "sum_list ws = 1"
    using assms by (simp_all add: valid_weights_def list_all_iff)
  have n: "0 < ?n" using total by (cases ws) auto
  have lower: "1 / ?n \<le> ?s" by (rule sum_sq_lower [OF total])
  have upper: "?s \<le> 1" using sum_sq_le_sq_sum [OF nonneg] total by simp
  have pos: "0 < ?s" using lower n by (smt (verit) divide_pos_pos)
  have neff: "Neff ws = Finite (1 / ?s)" using pos by (simp add: Neff_def)
  have b1: "1 \<le> 1 / ?s" using pos upper by simp
  have b2: "1 / ?s \<le> ?n" using pos n lower by (simp add: field_simps)
  have "1 / ?s = ?n \<longleftrightarrow> ?s = 1 / ?n" using pos n by (auto simp add: field_simps)
  then have b3: "1 / ?s = ?n \<longleftrightarrow> ws = replicate (length ws) (1 / ?n)"
    using sum_sq_uniform_iff [OF total] by simp
  have b4: "(\<exists>i<length ws. ws ! i = 1 \<and> (\<forall>j<length ws. j \<noteq> i \<longrightarrow> ws ! j = 0)) \<longrightarrow> 1 / ?s = 1"
    using sum_sq_one_hot [OF total] by auto
  show ?thesis using neff b1 b2 b3 b4 by blast
qed

theorem Neff_range_witness:
  "valid_weights [1/2, 1/2] \<and> Neff [1/2, 1/2] = Finite 2 \<and>
   valid_weights [0, 1, 0] \<and> Neff [0, 1, 0] = Finite 1"
proof -
  have a: "valid_weights [1/2, 1/2]" and b: "valid_weights [0, 1, 0]"
    by (simp_all add: valid_weights_def)
  from Neff_range [OF a] have "Neff [1/2, 1/2] = Finite 2"
    by (simp add: power2_eq_square)
  moreover from Neff_range [OF b] have "Neff [0, 1, 0] = Finite 1"
    by simp
  ultimately show ?thesis using a b by simp
qed

subsection \<open>C4: systematic resampling\<close>

text \<open>
  C4: for a particle set of cardinality \<open>N\<close>, a valid weight vector and an offset in
  \<open>[0, 1/N)\<close>, systematic resampling returns \<open>N\<close> particles drawn from the old set and the
  exactly uniform weight vector. The draw is proportional to weight in this sense:
  sample point \<open>u\<^sub>j = u\<^sub>0 + j/N\<close> selects particle \<open>k\<close> exactly when it lies in the bracket
  of \<open>k\<close>, whose width is the weight of \<open>k\<close>, and the number of copies of particle \<open>k\<close>
  differs from \<open>N w\<^sub>k\<close> by less than one.
\<close>

theorem systematic_resample_correct:
  assumes "valid_weights ws" "length ps = length ws" "0 \<le> u0" "u0 < 1 / real (length ps)"
  shows "\<exists>indexes.
           systematic_resample u0 ps ws =
             Inr (map (\<lambda>i. ps ! i) indexes, replicate (length ps) (1 / real (length ps))) \<and>
           length (map (\<lambda>i. ps ! i) indexes) = length ps \<and>
           set (map (\<lambda>i. ps ! i) indexes) \<subseteq> set ps \<and>
           (\<forall>j<length ps. indexes ! j < length ps \<and>
              (\<forall>k<length ps. indexes ! j = k \<longleftrightarrow>
                 in_bracket ws k (u0 + real j / real (length ps)))) \<and>
           (\<forall>k<length ps.
              \<bar>real (count_list indexes k) - real (length ps) * ws ! k\<bar> < 1)"
proof -
  let ?N = "length ps"
  let ?us = "positions u0 ?N"
  have nonneg: "\<forall>w\<in>set ws. 0 \<le> w" and total: "sum_list ws = 1"
    using assms(1) by (simp_all add: valid_weights_def list_all_iff)
  have "\<forall>u\<in>set ?us. sum_list (take 0 ws) \<le> u \<and> u < sum_list ws"
    using positions_range [OF assms(3,4)] total by simp
  from walk_brackets [OF _ _ sorted_positions this, of "cumsum ws"]
  obtain indexes where w: "walk ?us (cumsum ws) 0 = Inr indexes"
    and b: "list_all2 (\<lambda>u k. k < length ws \<and> in_bracket ws k u) ?us indexes"
    by auto
  have len: "length indexes = ?N"
    using list_all2_lengthD [OF b] by (simp add: positions_def)
  have at: "indexes ! j < ?N \<and> in_bracket ws (indexes ! j) (u0 + real j / real ?N)"
    if "j < ?N" for j
    using list_all2_nthD [OF b, of j] that assms(2) by (simp add: positions_def)
  have small: "list_all (\<lambda>i. i < ?N) indexes"
    using at len by (auto simp add: list_all_length)
  let ?ps' = "map (\<lambda>i. ps ! i) indexes"
  have res: "systematic_resample u0 ps ws = Inr (?ps', replicate ?N (1 / real ?N))"
    using w small by (simp add: systematic_resample_def Let_def)
  have sub: "set ?ps' \<subseteq> set ps"
    using small by (auto simp add: list_all_iff)
  have pick: "indexes ! j = k \<longleftrightarrow> in_bracket ws k (u0 + real j / real ?N)"
    if "j < ?N" "k < ?N" for j k
  proof
    assume "indexes ! j = k"
    then show "in_bracket ws k (u0 + real j / real ?N)"
      using at [OF that(1)] by simp
  next
    assume "in_bracket ws k (u0 + real j / real ?N)"
    from in_bracket_unique [OF nonneg _ _ _ this, of "indexes ! j"] at [OF that(1)]
      that(2) assms(2)
    show "indexes ! j = k" by simp
  qed
  have copies: "\<bar>real (count_list indexes k) - real ?N * ws ! k\<bar> < 1" if "k < ?N" for k
  proof -
    have "count_list indexes k = card {j. j < ?N \<and> indexes ! j = k}"
      by (auto simp add: count_list_eq_length_filter length_filter_conv_card len
          intro: arg_cong [where f = card])
    also have "{j. j < ?N \<and> indexes ! j = k} =
        {j. j < ?N \<and> in_bracket ws k (u0 + real j / real ?N)}"
      using pick that by auto
    finally show ?thesis
      using bracket_count [OF nonneg total, of k u0] that assms(2,3,4) by simp
  qed
  show ?thesis
    using res len sub at pick copies by (intro exI [of _ indexes]) simp
qed

theorem systematic_resample_correct_witness:
  "valid_weights [2/3, 1/3] \<and>
   systematic_resample (1/4) [(0, 0, 0), (1, 0, 0)] [2/3, 1/3]
     = Inr ([(0, 0, 0), (1, 0, 0)], [1/2, 1/2]) \<and>
   systematic_resample 0 [(0, 0, 0), (1, 0, 0)] [2/3, 1/3]
     = Inr ([(0, 0, 0), (0, 0, 0)], [1/2, 1/2])"
proof -
  have valid: "valid_weights [2/3, 1/3]"
    by (simp add: valid_weights_def)
  have spread: "systematic_resample (1/4) [(0, 0, 0), (1, 0, 0)] [2/3, 1/3]
     = Inr ([(0, 0, 0), (1, 0, 0)], [1/2, 1/2])"
    by (simp add: systematic_resample_def positions_def cumsum_def Let_def)
  have doubled: "systematic_resample 0 [(0, 0, 0), (1, 0, 0)] [2/3, 1/3]
     = Inr ([(0, 0, 0), (0, 0, 0)], [1/2, 1/2])"
    by (simp add: systematic_resample_def positions_def cumsum_def Let_def)
  from systematic_resample_correct [OF valid, of "[(0, 0, 0), (1, 0, 0)]" "1/4"]
    systematic_resample_correct [OF valid, of "[(0, 0, 0), (1, 0, 0)]" 0]
  show ?thesis using valid spread doubled by simp
qed

subsection \<open>C5: an update step that does not resample\<close>

text \<open>
  C5: on an update step (the step index is a multiple of \<open>skip\<close>), when the effective
  sample size of the weights produced by the likelihood is at or above
  \<open>neff_thres\<close>, the step returns the predicted particle set and the likelihood's
  weights; nothing is resampled.
\<close>

theorem no_resampling_at_or_above_threshold:
  assumes "np_mod time_step skip = 0"
    and "transition_fcn particles linear_vel angular_vel dt Q = Inr new_ps"
    and "np_average new_ps weights = Inr st"
    and "likelihood_fcn new_ps landmarks measurement = Inr new_ws"
    and "\<not> np_less (Neff new_ws) neff_thres"
  shows "localization_2d_pf landmarks resample particles weights measurement
           linear_vel angular_vel dt Q time_step neff_thres skip
           transition_fcn likelihood_fcn = Inr (new_ps, new_ws, st)"
  using assms by (simp add: localization_2d_pf_def)

theorem no_resampling_at_or_above_threshold_witness:
  "np_mod 100 100 = 0 \<and> Neff [2/3, 1/3] = Finite (9/5) \<and> \<not> np_less (Neff [2/3, 1/3]) 1 \<and>
   localization_2d_pf [(0, 0)] (systematic_resample 0)
     [(0, 0, 0), (1, 0, 0)] [1/2, 1/2] [0] 0 0 (1/50) Q_pf 100 1 100
     (transition_fcn_2d no_noise) (likelihood_fcn_2d range_lik)
   = Inr ([(0, 0, 0), (1, 0, 0)], [2/3, 1/3], (1/2, 0, 0))"
proof -
  have update: "np_mod 100 100 = 0"
    by (simp add: np_mod_def)
  have neff: "Neff [2/3, 1/3] = Finite (9/5)"
    by (simp add: Neff_def power2_eq_square)
  then have enough: "\<not> np_less (Neff [2/3, 1/3]) 1"
    by simp
  have predict: "transition_fcn_2d no_noise [(0, 0, 0), (1, 0, 0)] 0 0 (1/50) Q_pf
      = Inr [(0, 0, 0), (1, 0, 0)]"
    by (simp add: transition_fcn_2d_def negative_variance_def Q_pf_def no_noise_def wrap_zero)
  have mean: "np_average [(0, 0, 0), (1, 0, 0)] [1/2, 1/2] = Inr (1/2, 0, 0)"
    by (simp add: np_average_def px_def py_def ptheta_def)
  have weigh: "likelihood_fcn_2d range_lik [(0, 0, 0), (1, 0, 0)] [(0, 0)] [0]
      = Inr [2/3, 1/3]"
    by (simp add: likelihood_fcn_2d_def normalize_weights_def range_lik_def px_def py_def)
  have "localization_2d_pf [(0, 0)] (systematic_resample 0)
     [(0, 0, 0), (1, 0, 0)] [1/2, 1/2] [0] 0 0 (1/50) Q_pf 100 1 100
     (transition_fcn_2d no_noise) (likelihood_fcn_2d range_lik)
   = Inr ([(0, 0, 0), (1, 0, 0)], [2/3, 1/3], (1/2, 0, 0))"
    by (rule no_resampling_at_or_above_threshold)
      (rule update predict mean weigh enough)+
  then show ?thesis using update neff enough by simp
qed

subsection \<open>C6: the weight vector stays normalised\<close>

text \<open>
  C6: if the input weight vector is non-negative and sums to one, so does the weight
  vector the step returns, whether it was carried forward, produced by the normalising
  likelihood model, or reset by resampling. The likelihood model and the resampler are
  the ones of sections 4.2 and 4.3; the observation density is any non-negative
  function, and the tolerance of the floating-point sum is idealised to equality.
\<close>

theorem weights_stay_normalized:
  assumes "valid_weights weights"
    and "\<forall>p. 0 \<le> lik p landmarks measurement"
    and "localization_2d_pf landmarks (systematic_resample u0) particles weights measurement
           linear_vel angular_vel dt Q time_step neff_thres skip
           transition_fcn (likelihood_fcn_2d lik) = Inr (ps', ws', st)"
  shows "valid_weights ws'"
  using assms(1) _ _ assms(3)
proof (rule returned_weights_valid)
  fix ps :: "particle list" and ws
  assume "ps \<noteq> []" "likelihood_fcn_2d lik ps landmarks measurement = Inr ws"
  with assms(2) show "valid_weights ws"
    by (auto simp add: likelihood_fcn_2d_def intro!: valid_weights_normalize)
next
  fix ps :: "particle list" and ws qs us
  assume "ps \<noteq> []" "systematic_resample u0 ps ws = Inr (qs, us)"
  then show "valid_weights us"
    using systematic_resample_weights [of u0 ps ws qs us]
    by (simp add: valid_weights_uniform)
qed

theorem weights_stay_normalized_witness:
  "valid_weights [1/2, 1/2] \<and>
   localization_2d_pf [(0, 0)] (systematic_resample 0)
     [(0, 0, 0), (1, 0, 0)] [1/2, 1/2] [0] 0 0 (1/50) Q_pf 100 1 100
     (transition_fcn_2d no_noise) (likelihood_fcn_2d range_lik)
   = Inr ([(0, 0, 0), (1, 0, 0)], [2/3, 1/3], (1/2, 0, 0)) \<and>
   valid_weights [2/3, 1/3] \<and>
   localization_2d_pf [(0, 0)] (systematic_resample 0)
     [(0, 0, 0), (1, 0, 0)] [2/3, 1/3] [0] 0 0 (1/50) Q_pf 200 50 100
     (transition_fcn_2d no_noise) (likelihood_fcn_2d range_lik)
   = Inr ([(0, 0, 0), (0, 0, 0)], [1/2, 1/2], (1/3, 0, 0))"
proof -
  have valid: "valid_weights [1/2, 1/2]"
    by (simp add: valid_weights_def)
  have density: "\<forall>p. 0 \<le> range_lik p [(0, 0)] [0]"
    by (simp add: range_lik_nonneg)
  have weighted: "localization_2d_pf [(0, 0)] (systematic_resample 0)
     [(0, 0, 0), (1, 0, 0)] [1/2, 1/2] [0] 0 0 (1/50) Q_pf 100 1 100
     (transition_fcn_2d no_noise) (likelihood_fcn_2d range_lik)
   = Inr ([(0, 0, 0), (1, 0, 0)], [2/3, 1/3], (1/2, 0, 0))"
    by (simp add: step_eval Q_pf_def)
  have next_valid: "valid_weights [2/3, 1/3]"
    by (rule weights_stay_normalized [OF valid density weighted])
  have resampled: "localization_2d_pf [(0, 0)] (systematic_resample 0)
     [(0, 0, 0), (1, 0, 0)] [2/3, 1/3] [0] 0 0 (1/50) Q_pf 200 50 100
     (transition_fcn_2d no_noise) (likelihood_fcn_2d range_lik)
   = Inr ([(0, 0, 0), (0, 0, 0)], [1/2, 1/2], (1/3, 0, 0))"
    by (simp add: step_eval Q_pf_def)
  show ?thesis using valid weighted next_valid resampled by simp
qed

subsection \<open>C7: malformed step input\<close>

text \<open>
  C7 states that a step given a malformed input (a measurement vector whose length is
  not the landmark count, or a NaN) fails fast. The step function checks nothing: at the
  input below there are two landmarks and no measurement at all, and the step returns
  normally, because a step between two updates never reads the measurement.
\<close>

theorem malformed_measurement_accepted_counterexample:
  "length ([] :: real list) \<noteq> length [(0, 0), (4, 3) :: landmark] \<and>
   localization_2d_pf [(0, 0), (4, 3)] (systematic_resample 0)
     [(0, 0, 0), (1, 0, 0)] [1/2, 1/2] [] (1/2) 0 (1/50) Q_pf 1 50 100
     (transition_fcn_2d no_noise) (likelihood_fcn_2d range_lik)
   = Inr ([(1/100, 0, 0), (101/100, 0, 0)], [1/2, 1/2], (51/100, 0, 0))"
  by (simp add: step_eval Q_pf_def)

text \<open>
  C7, amended: the step function validates none of its inputs. On a step whose index
  is not a multiple of \<open>skip\<close> the measurement is not read, so with a measurement vector
  of any length the step returns the predicted particles, the input weights and the
  estimate whenever prediction and weighted mean succeed. A step fails exactly when one
  of its callees fails (the transition function, the weighted mean and, on an update
  step, the likelihood function or the resampler), and then it returns the error alone:
  no particle set and no weight vector come back.
\<close>

theorem step_fails_only_in_callees:
  "(np_mod time_step skip \<noteq> 0 \<longrightarrow>
      transition_fcn particles linear_vel angular_vel dt Q = Inr new_ps \<longrightarrow>
      np_average new_ps weights = Inr st \<longrightarrow>
      localization_2d_pf landmarks resample particles weights measurement
        linear_vel angular_vel dt Q time_step neff_thres skip
        transition_fcn likelihood_fcn = Inr (new_ps, weights, st)) \<and>
   (localization_2d_pf landmarks resample particles weights measurement
        linear_vel angular_vel dt Q time_step neff_thres skip
        transition_fcn likelihood_fcn = Inl e \<longleftrightarrow>
      transition_fcn particles linear_vel angular_vel dt Q = Inl e \<or>
      (\<exists>ps. transition_fcn particles linear_vel angular_vel dt Q = Inr ps \<and>
         (np_average ps weights = Inl e \<or>
          (\<exists>mean. np_average ps weights = Inr mean \<and> np_mod time_step skip = 0 \<and>
             (likelihood_fcn ps landmarks measurement = Inl e \<or>
              (\<exists>ws. likelihood_fcn ps landmarks measurement = Inr ws \<and>
                 np_less (Neff ws) neff_thres \<and> resample ps ws = Inl e))))))"
  by (auto simp add: localization_2d_pf_def Let_def split: sum.splits if_splits)

theorem step_fails_only_in_callees_witness:
  "np_mod 1 100 \<noteq> 0 \<and>
   localization_2d_pf [(0, 0), (4, 3)] (systematic_resample 0)
     [(0, 0, 0), (1, 0, 0)] [1/2, 1/2] [5] (1/2) 0 (1/50) Q_pf 1 50 100
     (transition_fcn_2d no_noise) (likelihood_fcn_2d range_lik)
   = Inr ([(1/100, 0, 0), (101/100, 0, 0)], [1/2, 1/2], (51/100, 0, 0)) \<and>
   localization_2d_pf [(0, 0), (4, 3)] (systematic_resample 0)
     [(0, 0, 0), (1, 0, 0)] [1/2, 1/2, 0] [5] (1/2) 0 (1/50) Q_pf 1 50 100
     (transition_fcn_2d no_noise) (likelihood_fcn_2d range_lik)
   = Inl ValueError"
proof -
  have skipped: "np_mod 1 100 \<noteq> 0"
    by (simp add: np_mod_def)
  have predict: "transition_fcn_2d no_noise [(0, 0, 0), (1, 0, 0)] (1/2) 0 (1/50) Q_pf
      = Inr [(1/100, 0, 0), (101/100, 0, 0)]"
    by (simp add: transition_fcn_2d_def negative_variance_def Q_pf_def no_noise_def wrap_zero)
  have mean: "np_average [(1/100, 0, 0), (101/100, 0, 0)] [1/2, 1/2] = Inr (51/100, 0, 0)"
    by (simp add: np_average_def px_def py_def ptheta_def)
  have mismatch: "np_average [(1/100, 0, 0), (101/100, 0, 0)] [1/2, 1/2, 0] = Inl ValueError"
    by (simp add: np_average_def)
  have "localization_2d_pf [(0, 0), (4, 3)] (systematic_resample 0)
     [(0, 0, 0), (1, 0, 0)] [1/2, 1/2] [5] (1/2) 0 (1/50) Q_pf 1 50 100
     (transition_fcn_2d no_noise) (likelihood_fcn_2d range_lik)
   = Inr ([(1/100, 0, 0), (101/100, 0, 0)], [1/2, 1/2], (51/100, 0, 0))"
    by (rule step_fails_only_in_callees [THEN conjunct1, rule_format])
      (rule skipped predict mean)+
  moreover have "localization_2d_pf [(0, 0), (4, 3)] (systematic_resample 0)
     [(0, 0, 0), (1, 0, 0)] [1/2, 1/2, 0] [5] (1/2) 0 (1/50) Q_pf 1 50 100
     (transition_fcn_2d no_noise) (likelihood_fcn_2d range_lik)
   = Inl ValueError"
    by (rule step_fails_only_in_callees [THEN conjunct2, THEN iffD2])
      (simp add: predict mismatch)
  ultimately show ?thesis using skipped by simp
qed

subsection \<open>C8: invalid configuration\<close>

text \<open>
  C8 states that an invalid configuration, among them \<open>skip \<le> 0\<close>, is rejected at the
  first call. The step function has no such check: the first call with \<open>skip = -100\<close>
  returns normally.
\<close>

theorem negative_skip_accepted_counterexample:
  "(- 100 :: int) \<le> 0 \<and>
   localization_2d_pf [(0, 0)] (systematic_resample 0)
     [(0, 0, 0), (1, 0, 0)] [1/2, 1/2] [0] (1/2) 0 (1/50) Q_pf 1 50 (- 100)
     (transition_fcn_2d no_noise) (likelihood_fcn_2d range_lik)
   = Inr ([(1/100, 0, 0), (101/100, 0, 0)], [1/2, 1/2], (51/100, 0, 0))"
  by (simp add: step_eval Q_pf_def)

text \<open>
  C8, amended: the step function does not validate its configuration. A value
  \<open>skip \<le> 0\<close> is accepted at every call: a negative \<open>skip\<close> behaves exactly as \<open>-skip\<close>,
  and \<open>skip = 0\<close> exactly as \<open>skip = 1\<close> (every step is an update step). An empty particle
  set is rejected at the first call: the step fails in the transition function or, when
  that returns the empty set, at the weighted mean.
\<close>

theorem nonpositive_skip_not_rejected:
  "(skip < 0 \<longrightarrow>
      localization_2d_pf landmarks resample particles weights measurement
        linear_vel angular_vel dt Q time_step neff_thres skip
        transition_fcn likelihood_fcn =
      localization_2d_pf landmarks resample particles weights measurement
        linear_vel angular_vel dt Q time_step neff_thres (- skip)
        transition_fcn likelihood_fcn) \<and>
   localization_2d_pf landmarks resample particles weights measurement
        linear_vel angular_vel dt Q time_step neff_thres 0
        transition_fcn likelihood_fcn =
   localization_2d_pf landmarks resample particles weights measurement
        linear_vel angular_vel dt Q time_step neff_thres 1
        transition_fcn likelihood_fcn \<and>
   (particles = [] \<longrightarrow>
      (\<forall>ps. transition_fcn particles linear_vel angular_vel dt Q = Inr ps \<longrightarrow> ps = []) \<longrightarrow>
      (\<exists>e. localization_2d_pf landmarks resample particles weights measurement
        linear_vel angular_vel dt Q time_step neff_thres skip
        transition_fcn likelihood_fcn = Inl e))"
proof (intro conjI impI)
  show "localization_2d_pf landmarks resample particles weights measurement
        linear_vel angular_vel dt Q time_step neff_thres skip
        transition_fcn likelihood_fcn =
      localization_2d_pf landmarks resample particles weights measurement
        linear_vel angular_vel dt Q time_step neff_thres (- skip)
        transition_fcn likelihood_fcn"
    by (rule same_update_steps) (simp add: np_mod_minus)
next
  show "localization_2d_pf landmarks resample particles weights measurement
        linear_vel angular_vel dt Q time_step neff_thres 0
        transition_fcn likelihood_fcn =
   localization_2d_pf landmarks resample particles weights measurement
        linear_vel angular_vel dt Q time_step neff_thres 1
        transition_fcn likelihood_fcn"
    by (rule same_update_steps) (simp add: np_mod_zero_one)
next
  assume empty: "particles = []"
    and keeps: "\<forall>ps. transition_fcn particles linear_vel angular_vel dt Q = Inr ps \<longrightarrow> ps = []"
  have "\<exists>e. np_average [] weights = Inl e"
    by (simp add: np_average_def)
  with keeps show "\<exists>e. localization_2d_pf landmarks resample particles weights measurement
        linear_vel angular_vel dt Q time_step neff_thres skip
        transition_fcn likelihood_fcn = Inl e"
    by (cases "transition_fcn particles linear_vel angular_vel dt Q")
      (auto simp add: localization_2d_pf_def)
qed

theorem nonpositive_skip_not_rejected_witness:
  "(- 100 :: int) < 0 \<and>
   localization_2d_pf [(0, 0)] (systematic_resample 0)
     [(0, 0, 0), (1, 0, 0)] [1/2, 1/2] [0] (1/2) 0 (1/50) Q_pf 300 50 (- 100)
     (transition_fcn_2d no_noise) (likelihood_fcn_2d range_lik) =
   localization_2d_pf [(0, 0)] (systematic_resample 0)
     [(0, 0, 0), (1, 0, 0)] [1/2, 1/2] [0] (1/2) 0 (1/50) Q_pf 300 50 100
     (transition_fcn_2d no_noise) (likelihood_fcn_2d range_lik) \<and>
   localization_2d_pf [(0, 0)] (systematic_resample 0)
     [] [] [0] (1/2) 0 (1/50) Q_pf 1 50 100
     (transition_fcn_2d no_noise) (likelihood_fcn_2d range_lik) = Inl ValueError"
proof -
  have negative: "(- 100 :: int) < 0"
    by simp
  have rejects: "\<forall>ps. transition_fcn_2d no_noise [] (1/2) 0 (1/50) Q_pf = Inr ps \<longrightarrow> ps = []"
    by (simp add: transition_fcn_2d_def)
  from nonpositive_skip_not_rejected [THEN conjunct1, rule_format, OF negative]
  have same: "localization_2d_pf [(0, 0)] (systematic_resample 0)
     [(0, 0, 0), (1, 0, 0)] [1/2, 1/2] [0] (1/2) 0 (1/50) Q_pf 300 50 (- 100)
     (transition_fcn_2d no_noise) (likelihood_fcn_2d range_lik) =
   localization_2d_pf [(0, 0)] (systematic_resample 0)
     [(0, 0, 0), (1, 0, 0)] [1/2, 1/2] [0] (1/2) 0 (1/50) Q_pf 300 50 100
     (transition_fcn_2d no_noise) (likelihood_fcn_2d range_lik)"
    by simp
  from nonpositive_skip_not_rejected [THEN conjunct2, THEN conjunct2, rule_format,
      OF refl rejects [rule_format]]
  have "\<exists>e. localization_2d_pf [(0, 0)] (systematic_resample 0)
     [] [] [0] (1/2) 0 (1/50) Q_pf 1 50 100
     (transition_fcn_2d no_noise) (likelihood_fcn_2d range_lik) = Inl e"
    by blast
  then have "localization_2d_pf [(0, 0)] (systematic_resample 0)
     [] [] [0] (1/2) 0 (1/50) Q_pf 1 50 100
     (transition_fcn_2d no_noise) (likelihood_fcn_2d range_lik) = Inl ValueError"
    by (simp add: localization_2d_pf_def transition_fcn_2d_def)
  with negative same show ?thesis by simp
qed

subsection \<open>C9: the measurement does not flow into a step between two updates\<close>

text \<open>
  C9: when the step index is not a multiple of \<open>skip\<close>, two runs that differ only in
  the measurement (same particles, weights, controls, noise draws and step index) return
  the same particle set, weight vector and estimate, or fail alike.
\<close>

theorem measurement_ignored_between_updates:
  assumes "np_mod time_step skip \<noteq> 0"
  shows "localization_2d_pf landmarks resample particles weights measurement
           linear_vel angular_vel dt Q time_step neff_thres skip
           transition_fcn likelihood_fcn =
         localization_2d_pf landmarks resample particles weights measurement'
           linear_vel angular_vel dt Q time_step neff_thres skip
           transition_fcn likelihood_fcn"
  using assms by (simp add: localization_2d_pf_def split: sum.splits)

theorem measurement_ignored_between_updates_witness:
  "np_mod 42 100 \<noteq> 0 \<and>
   localization_2d_pf [(0, 0)] (systematic_resample 0)
     [(0, 0, 0), (1, 0, 0)] [1/2, 1/2] [0] (1/2) 0 (1/50) Q_pf 42 50 100
     (transition_fcn_2d no_noise) (likelihood_fcn_2d range_lik) =
   localization_2d_pf [(0, 0)] (systematic_resample 0)
     [(0, 0, 0), (1, 0, 0)] [1/2, 1/2] [7] (1/2) 0 (1/50) Q_pf 42 50 100
     (transition_fcn_2d no_noise) (likelihood_fcn_2d range_lik)"
proof -
  have skipped: "np_mod 42 100 \<noteq> 0"
    by (simp add: np_mod_def)
  from measurement_ignored_between_updates [OF skipped] skipped
  show ?thesis by blast
qed

subsection \<open>C10: a weight vector that sums to zero\<close>

text \<open>
  C10: the step needs input weights with a non-zero sum. When they sum to zero the step
  never returns an estimate, and when the prediction succeeds with as many particles as
  there are weights, it fails in the weighted mean with the division-by-zero error.
\<close>

theorem zero_weight_sum_fails:
  assumes "sum_list weights = 0"
  shows "localization_2d_pf landmarks resample particles weights measurement
           linear_vel angular_vel dt Q time_step neff_thres skip
           transition_fcn likelihood_fcn \<noteq> Inr r \<and>
         (transition_fcn particles linear_vel angular_vel dt Q = Inr new_ps \<longrightarrow>
          length new_ps = length weights \<longrightarrow>
          localization_2d_pf landmarks resample particles weights measurement
            linear_vel angular_vel dt Q time_step neff_thres skip
            transition_fcn likelihood_fcn = Inl ZeroDivisionError)"
  using assms
  by (auto simp add: localization_2d_pf_def np_average_def split: sum.splits)

theorem zero_weight_sum_fails_witness:
  "sum_list [0, 0 :: real] = 0 \<and>
   localization_2d_pf [(0, 0)] (systematic_resample 0)
     [(0, 0, 0), (1, 0, 0)] [0, 0] [0] (1/2) 0 (1/50) Q_pf 1 50 100
     (transition_fcn_2d no_noise) (likelihood_fcn_2d range_lik) = Inl ZeroDivisionError"
proof -
  have zero: "sum_list [0, 0 :: real] = 0"
    by simp
  have predict: "transition_fcn_2d no_noise [(0, 0, 0), (1, 0, 0)] (1/2) 0 (1/50) Q_pf
      = Inr [(1/100, 0, 0), (101/100, 0, 0)]"
    by (simp add: transition_fcn_2d_def negative_variance_def Q_pf_def no_noise_def wrap_zero)
  have "localization_2d_pf [(0, 0)] (systematic_resample 0)
     [(0, 0, 0), (1, 0, 0)] [0, 0] [0] (1/2) 0 (1/50) Q_pf 1 50 100
     (transition_fcn_2d no_noise) (likelihood_fcn_2d range_lik) = Inl ZeroDivisionError"
    by (rule zero_weight_sum_fails [OF zero, THEN conjunct2, rule_format])
      (rule predict, simp)
  with zero show ?thesis by simp
qed

end
